theory Spec2Isabelle
  imports Complex_Main
begin

section \<open>BFGS with step-size selection (notebook \<open>ex1-5.ipynb\<close>)\<close>

text \<open>
  The notebook defines a result class \<open>BFGSOutput\<close>, the step-size routine
  \<open>bfgs_step\<close> and the optimiser \<open>bfgs\<close>. The embedding below follows the
  three definitions line by line.

  Numbers are real numbers: arithmetic is exact, there is no rounding and no
  overflow. NumPy's one-dimensional arrays are lists of reals; two-dimensional
  arrays are lists of rows. The places where the program leaves the real numbers
  (a division by zero, which NumPy answers with \<open>inf\<close> or \<open>nan\<close> and a warning) are
  outcomes of their own, as are a Python exception and a loop that never ends.
\<close>

subsection \<open>Arrays\<close>

type_synonym vec = "real list"
type_synonym mat = "real list list"

text \<open>
  Within one run every one-dimensional array has the size \<open>n\<close> of the starting
  point and \<open>H_inv\<close> is \<open>n \<times> n\<close>: the gradient is \<open>grad(f)\<close>, whose value has the
  shape of its argument, and the search direction is \<open>-H_inv @ df(x)\<close>. On arrays
  of equal size the operations below are NumPy's. They are total: where the sizes
  differ they work on the common prefix, a case in which NumPy broadcasts or raises
  \<open>ValueError\<close> and which no run of \<open>bfgs\<close> reaches.
\<close>

text \<open>\<open>np.dot(u, v)\<close> and \<open>u @ v\<close> on one-dimensional arrays.\<close>

definition dot :: "vec \<Rightarrow> vec \<Rightarrow> real" where
  "dot u v = sum_list (map2 (*) u v)"

text \<open>\<open>u + v\<close>, \<open>u - v\<close> and \<open>c * v\<close> on one-dimensional arrays.\<close>

definition vadd :: "vec \<Rightarrow> vec \<Rightarrow> vec" where
  "vadd u v = map2 (+) u v"

definition vsub :: "vec \<Rightarrow> vec \<Rightarrow> vec" where
  "vsub u v = map2 (-) u v"

definition vscale :: "real \<Rightarrow> vec \<Rightarrow> vec" where
  "vscale c v = map ((*) c) v"

text \<open>\<open>scipy.linalg.norm\<close> of a one-dimensional array: the Euclidean norm.\<close>

definition norm2 :: "vec \<Rightarrow> real" where
  "norm2 v = sqrt (sum_list (map (\<lambda>a. a * a) v))"

text \<open>\<open>np.eye(n)\<close>.\<close>

definition eye :: "nat \<Rightarrow> mat" where
  "eye n = map (\<lambda>i. map (\<lambda>j. if i = j then 1 else 0) [0..<n]) [0..<n]"

text \<open>\<open>-A\<close>, \<open>A *= c\<close> and \<open>A - s\<close> for a scalar \<open>s\<close> (broadcast to every entry).\<close>

definition mneg :: "mat \<Rightarrow> mat" where
  "mneg A = map (map uminus) A"

definition mscale :: "real \<Rightarrow> mat \<Rightarrow> mat" where
  "mscale c A = map (map (\<lambda>a. a * c)) A"

definition msub_scalar :: "mat \<Rightarrow> real \<Rightarrow> mat" where
  "msub_scalar A s = map (map (\<lambda>a. a - s)) A"

text \<open>\<open>A @ v\<close> and \<open>A @ B\<close>.\<close>

definition matvec :: "mat \<Rightarrow> vec \<Rightarrow> vec" where
  "matvec A v = map (\<lambda>r. dot r v) A"

definition mat_cols :: "mat \<Rightarrow> nat" where
  "mat_cols B = (case B of [] \<Rightarrow> 0 | r # _ \<Rightarrow> length r)"

definition matmul :: "mat \<Rightarrow> mat \<Rightarrow> mat" where
  "matmul A B = map (\<lambda>r. map (\<lambda>j. dot r (map (\<lambda>b. b ! j) B)) [0..<mat_cols B]) A"

subsection \<open>Outcomes and the result object\<close>

text \<open>
  A call either returns a value, raises \<open>TypeError\<close>, leaves the real numbers
  (\<open>NonFinite\<close>: NumPy continues with \<open>inf\<close> and \<open>nan\<close>, which this model does not
  follow), or never returns.
\<close>

datatype 'a outcome = Returns 'a | TypeError | NonFinite | NoReturn

text \<open>
  \<open>class BFGSOutput\<close>: the constructor sets \<open>x\<close>, \<open>fx\<close>, \<open>converged\<close> and \<open>iter\<close>;
  the attribute \<open>history\<close> exists only after \<open>add_history\<close> has been called.
\<close>

record BFGSOutput =
  x :: vec
  fx :: real
  converged :: bool
  iter :: int
  history :: "vec list option"

definition BFGSOutput_init :: "vec \<Rightarrow> real \<Rightarrow> bool \<Rightarrow> int \<Rightarrow> BFGSOutput" where
  "BFGSOutput_init x' fx' converged' iter' =
     \<lparr>x = x', fx = fx', converged = converged', iter = iter', history = None\<rparr>"

definition add_history :: "BFGSOutput \<Rightarrow> vec list \<Rightarrow> BFGSOutput" where
  "add_history out h = out\<lparr>history := Some h\<rparr>"

subsection \<open>\<open>bfgs_step\<close>\<close>

text \<open>
  \<open>scipy.optimize.minimize_scalar\<close> is a library routine; it is a parameter of
  the model. Of its result object the program reads the field \<open>x\<close>; the field
  \<open>nfev\<close> is the number of evaluations of the function it was given.
\<close>

record OptimizeResult =
  opt_x :: real
  nfev :: nat

type_synonym minimizer = "(real \<Rightarrow> real) \<Rightarrow> OptimizeResult"

text \<open>\<open>line_search = lambda alpha: f(x + alpha*search_direction)\<close>.\<close>

definition line_search :: "(vec \<Rightarrow> real) \<Rightarrow> vec \<Rightarrow> vec \<Rightarrow> real \<Rightarrow> real" where
  "line_search f x0 d alpha = f (vadd x0 (vscale alpha d))"

text \<open>The test of the \<open>while\<close> loop of the Armijo branch.\<close>

definition armijo_test :: "(vec \<Rightarrow> real) \<Rightarrow> (vec \<Rightarrow> vec) \<Rightarrow> vec \<Rightarrow> vec \<Rightarrow> real \<Rightarrow> real \<Rightarrow> bool" where
  "armijo_test f df x0 d armijo_param alpha \<longleftrightarrow>
     line_search f x0 d alpha > f x0 + armijo_param * alpha * dot (df x0) d"

text \<open>
  \<open>while test(alpha): alpha *= 0.5\<close> followed by \<open>return alpha\<close>. The loop has no
  bound, so it is a partial function: \<open>None\<close> is a loop that never ends.
\<close>

partial_function (option) armijo_loop ::
  "(vec \<Rightarrow> real) \<Rightarrow> (vec \<Rightarrow> vec) \<Rightarrow> vec \<Rightarrow> vec \<Rightarrow> real \<Rightarrow> real \<Rightarrow> real option" where
  "armijo_loop f df x0 d armijo_param alpha =
     (if armijo_test f df x0 d armijo_param alpha
      then armijo_loop f df x0 d armijo_param (alpha * 0.5)
      else Some alpha)"

text \<open>
  What \<open>bfgs_step\<close> hands back: a number, or Python's \<open>None\<close> when \<open>method\<close> is
  none of the three strings and the function falls off its last \<open>elif\<close>.
\<close>

datatype step_size = Alpha real | PyNone

definition bfgs_step ::
  "(vec \<Rightarrow> real) \<Rightarrow> (vec \<Rightarrow> vec) \<Rightarrow> minimizer \<Rightarrow> vec \<Rightarrow> vec \<Rightarrow> string \<Rightarrow> real \<Rightarrow> step_size option" where
  "bfgs_step f df minimize_scalar x0 search_direction method armijo_param =
     (if method = ''full'' then Some (Alpha 1)
      else if method = ''exact''
        then Some (Alpha (opt_x (minimize_scalar (line_search f x0 search_direction))))
      else if method = ''Armijo''
        then map_option Alpha (armijo_loop f df x0 search_direction armijo_param 1)
      else Some PyNone)"

text \<open>
  The same routine, counting the calls of \<open>f\<close> it makes: none in the branch
  \<open>full\<close>, those of the library minimiser in the branch \<open>exact\<close>, and two for
  every evaluation of the loop test in the branch \<open>Armijo\<close> (\<open>line_search(alpha)\<close>
  and \<open>f(x)\<close>).
\<close>

partial_function (option) armijo_loop_evals ::
  "(vec \<Rightarrow> real) \<Rightarrow> (vec \<Rightarrow> vec) \<Rightarrow> vec \<Rightarrow> vec \<Rightarrow> real \<Rightarrow> real \<Rightarrow> nat \<Rightarrow> (real \<times> nat) option" where
  "armijo_loop_evals f df x0 d armijo_param alpha calls =
     (if armijo_test f df x0 d armijo_param alpha
      then armijo_loop_evals f df x0 d armijo_param (alpha * 0.5) (calls + 2)
      else Some (alpha, calls + 2))"

definition bfgs_step_evals ::
  "(vec \<Rightarrow> real) \<Rightarrow> (vec \<Rightarrow> vec) \<Rightarrow> minimizer \<Rightarrow> vec \<Rightarrow> vec \<Rightarrow> string \<Rightarrow> real
     \<Rightarrow> (step_size \<times> nat) option" where
  "bfgs_step_evals f df minimize_scalar x0 search_direction method armijo_param =
     (if method = ''full'' then Some (Alpha 1, 0)
      else if method = ''exact''
        then (let r = minimize_scalar (line_search f x0 search_direction)
              in Some (Alpha (opt_x r), nfev r))
      else if method = ''Armijo''
        then map_option (\<lambda>(a, c). (Alpha a, c))
               (armijo_loop_evals f df x0 search_direction armijo_param 1 0)
      else Some (PyNone, 0))"

subsection \<open>\<open>bfgs\<close>\<close>

text \<open>
  The gradient \<open>df = grad(f)\<close> comes from the automatic-differentiation library
  and is a parameter \<open>df\<close> of the model; it returns an array of the shape of its
  argument.

  Line 143, the assignment to \<open>H_inv\<close>. On one-dimensional arrays \<open>q.T\<close> is
  \<open>q\<close> and \<open>rho * p @ q.T\<close> is the number \<open>(rho * p) @ q\<close>, which
  \<open>np.eye(n) - ...\<close> subtracts from every entry of the identity matrix.
\<close>

definition H_update :: "nat \<Rightarrow> real \<Rightarrow> vec \<Rightarrow> vec \<Rightarrow> mat \<Rightarrow> mat" where
  "H_update n rho p q H =
     matmul (matmul (msub_scalar (eye n) (dot (vscale rho p) q)) H)
            (msub_scalar (eye n) (dot (vscale rho p) q))"

text \<open>
  Lines 131 to 143, once the step size is a number. \<open>1 / np.dot(p,q)\<close> and,
  in the first iteration, \<open>np.dot(p,q) / np.dot(q,q)\<close> divide; a zero divisor
  gives \<open>NonFinite\<close>.
\<close>

definition bfgs_secant ::
  "(vec \<Rightarrow> vec) \<Rightarrow> nat \<Rightarrow> int \<Rightarrow> vec \<Rightarrow> mat \<Rightarrow> vec \<Rightarrow> real \<Rightarrow> (vec \<times> mat) outcome" where
  "bfgs_secant df n it x_old H search_direction step_size =
     (let x' = vadd x_old (vscale step_size search_direction);
          p = vsub x' x_old;
          q = vsub (df x') (df x_old)
      in if dot p q = 0 then NonFinite
         else (let rho = 1 / dot p q in
           if it = 0 \<and> dot q q = 0 then NonFinite
           else (let H1 = (if it = 0 then mscale (dot p q / dot q q) H else H)
                 in Returns (x', H_update n rho p q H1))))"

text \<open>
  Lines 127 to 143. A step size that is Python's \<open>None\<close> makes
  \<open>step_size * search_direction\<close> raise \<open>TypeError\<close>.
\<close>

definition bfgs_update ::
  "(vec \<Rightarrow> real) \<Rightarrow> (vec \<Rightarrow> vec) \<Rightarrow> minimizer \<Rightarrow> string \<Rightarrow> real \<Rightarrow> nat \<Rightarrow> int
     \<Rightarrow> vec \<times> mat \<Rightarrow> (vec \<times> mat) outcome" where
  "bfgs_update f df minimize_scalar method armijo_param n it s =
     (let x_old = fst s; H = snd s;
          search_direction = matvec (mneg H) (df x_old)
      in (case bfgs_step f df minimize_scalar x_old search_direction method armijo_param of
            None \<Rightarrow> NoReturn
          | Some PyNone \<Rightarrow> TypeError
          | Some (Alpha step_size) \<Rightarrow> bfgs_secant df n it x_old H search_direction step_size))"

text \<open>
  The local variables of \<open>bfgs\<close> that the loop changes. \<open>hist\<close> is the list
  \<open>history\<close>, which the program keeps only when \<open>save_history\<close> is set.
\<close>

record bfgs_locals =
  cur_x :: vec
  cur_H :: mat
  conv :: bool
  n_iter :: int
  hist :: "vec list"

text \<open>\<open>for iter in range(max_iter)\<close>, with the \<open>break\<close> on convergence.\<close>

fun bfgs_for ::
  "(vec \<Rightarrow> real) \<Rightarrow> (vec \<Rightarrow> vec) \<Rightarrow> minimizer \<Rightarrow> string \<Rightarrow> real \<Rightarrow> nat \<Rightarrow> real \<Rightarrow> bool
     \<Rightarrow> int list \<Rightarrow> bfgs_locals \<Rightarrow> bfgs_locals outcome" where
  "bfgs_for f df ms method ap n tol save [] st = Returns st"
| "bfgs_for f df ms method ap n tol save (it # rest) st =
     (let st1 = (if save then st\<lparr>hist := hist st @ [cur_x st]\<rparr> else st) in
      if norm2 (df (cur_x st1)) < tol
      then Returns (st1\<lparr>n_iter := it, conv := True\<rparr>)
      else (case bfgs_update f df ms method ap n it (cur_x st1, cur_H st1) of
              Returns s' \<Rightarrow>
                bfgs_for f df ms method ap n tol save rest (st1\<lparr>cur_x := fst s', cur_H := snd s'\<rparr>)
            | TypeError \<Rightarrow> TypeError
            | NonFinite \<Rightarrow> NonFinite
            | NoReturn \<Rightarrow> NoReturn))"

text \<open>\<open>range(max_iter)\<close>: empty when \<open>max_iter\<close> is zero or negative.\<close>

definition py_range :: "int \<Rightarrow> int list" where
  "py_range m = [0..m - 1]"

text \<open>Lines 104 to 115: the local variables before the loop.\<close>

definition bfgs_init :: "vec \<Rightarrow> int \<Rightarrow> bfgs_locals" where
  "bfgs_init x0 max_iter =
     \<lparr>cur_x = x0, cur_H = eye (length x0), conv = False, n_iter = max_iter, hist = []\<rparr>"

definition bfgs_run ::
  "(vec \<Rightarrow> real) \<Rightarrow> (vec \<Rightarrow> vec) \<Rightarrow> minimizer \<Rightarrow> vec \<Rightarrow> string \<Rightarrow> real \<Rightarrow> int \<Rightarrow> real \<Rightarrow> bool
     \<Rightarrow> bfgs_locals outcome" where
  "bfgs_run f df ms x0 method ap max_iter tol save =
     bfgs_for f df ms method ap (length x0) tol save (py_range max_iter) (bfgs_init x0 max_iter)"

text \<open>Line 145: the object as the constructor builds it.\<close>

definition bfgs_constructed ::
  "(vec \<Rightarrow> real) \<Rightarrow> (vec \<Rightarrow> vec) \<Rightarrow> minimizer \<Rightarrow> vec \<Rightarrow> string \<Rightarrow> real \<Rightarrow> int \<Rightarrow> real \<Rightarrow> bool
     \<Rightarrow> BFGSOutput outcome" where
  "bfgs_constructed f df ms x0 method ap max_iter tol save =
     (case bfgs_run f df ms x0 method ap max_iter tol save of
        Returns st \<Rightarrow> Returns (BFGSOutput_init (cur_x st) (f (cur_x st)) (conv st) (n_iter st))
      | TypeError \<Rightarrow> TypeError
      | NonFinite \<Rightarrow> NonFinite
      | NoReturn \<Rightarrow> NoReturn)"

text \<open>Lines 145 to 148: construction, then \<open>add_history\<close> when requested.\<close>

definition bfgs ::
  "(vec \<Rightarrow> real) \<Rightarrow> (vec \<Rightarrow> vec) \<Rightarrow> minimizer \<Rightarrow> vec \<Rightarrow> string \<Rightarrow> real \<Rightarrow> int \<Rightarrow> real \<Rightarrow> bool
     \<Rightarrow> BFGSOutput outcome" where
  "bfgs f df ms x0 method ap max_iter tol save =
     (case bfgs_run f df ms x0 method ap max_iter tol save of
        Returns st \<Rightarrow>
          (let out = BFGSOutput_init (cur_x st) (f (cur_x st)) (conv st) (n_iter st)
           in Returns (if save then add_history out (hist st) else out))
      | TypeError \<Rightarrow> TypeError
      | NonFinite \<Rightarrow> NonFinite
      | NoReturn \<Rightarrow> NoReturn)"

subsection \<open>Reading the history\<close>

text \<open>
  \<open>out.history[i]\<close> for an index \<open>i \<ge> 0\<close>: \<open>None\<close> when the object has no
  attribute \<open>history\<close> (Python raises \<open>AttributeError\<close>) or the list has no entry
  \<open>i\<close> (\<open>IndexError\<close>).
\<close>

definition history_at :: "BFGSOutput \<Rightarrow> nat \<Rightarrow> vec option" where
  "history_at out i =
     (case history out of
        None \<Rightarrow> None
      | Some h \<Rightarrow> if i < length h then Some (h ! i) else None)"

subsection \<open>The test objective of the notebook\<close>

text \<open>
  \<open>def f(x): return x[0]**2 + x[1]**2\<close>, used below on arrays of size two, and
  its gradient.
\<close>

definition f_quadratic :: "vec \<Rightarrow> real" where
  "f_quadratic v = (v ! 0) ^ 2 + (v ! 1) ^ 2"

definition grad_f_quadratic :: "vec \<Rightarrow> vec" where
  "grad_f_quadratic v = [2 * (v ! 0), 2 * (v ! 1)]"

text \<open>A stand-in for the library minimiser where a closed example needs one.\<close>

definition minimizer_stub :: minimizer where
  "minimizer_stub g = \<lparr>opt_x = 0, nfev = 0\<rparr>"

subsection \<open>Notions of the specification\<close>


text \<open>
  The update as the specification writes it, with the outer product
  \<open>p \<otimes> q\<close> (entry \<open>(i, j)\<close> is \<open>p\<^sub>i * q\<^sub>j\<close>):
  \<open>(I - rho * p \<otimes> q) @ H_inv @ (I - rho * p \<otimes> q)\<close>.
\<close>

definition outer :: "vec \<Rightarrow> vec \<Rightarrow> mat" where
  "outer p q = map (\<lambda>a. map (\<lambda>b. a * b) q) p"

definition msub :: "mat \<Rightarrow> mat \<Rightarrow> mat" where
  "msub A B = map2 (map2 (-)) A B"

definition H_update_spec :: "nat \<Rightarrow> real \<Rightarrow> vec \<Rightarrow> vec \<Rightarrow> mat \<Rightarrow> mat" where
  "H_update_spec n rho p q H =
     matmul (matmul (msub (eye n) (mscale rho (outer p q))) H)
            (msub (eye n) (mscale rho (outer p q)))"



section \<open>Auxiliary facts\<close>

subsection \<open>Arrays of size two\<close>

text \<open>
  The Euclidean norm is below a bound exactly when the bound is positive and the
  sum of squares is below its square; this removes the square root from concrete
  evaluations.
\<close>

lemma norm2_less_iff: "norm2 v < t \<longleftrightarrow> 0 < t \<and> sum_list (map (\<lambda>a. a * a) v) < t ^ 2"
proof -
  have nn: "0 \<le> sum_list (map (\<lambda>a. a * a) v)"
    by (rule sum_list_nonneg) auto
  show ?thesis
  proof (cases "0 < t")
    case True
    have "sqrt (sum_list (map (\<lambda>a. a * a) v)) < sqrt (t ^ 2) \<longleftrightarrow> sum_list (map (\<lambda>a. a * a) v) < t ^ 2"
      by (rule real_sqrt_less_iff)
    with True show ?thesis by (simp add: norm2_def)
  next
    case False
    have "0 \<le> sqrt (sum_list (map (\<lambda>a. a * a) v))" using nn by simp
    with False have "\<not> sqrt (sum_list (map (\<lambda>a. a * a) v)) < t" by linarith
    with False show ?thesis by (simp add: norm2_def)
  qed
qed

lemma upt_0_2: "[0..<2] = [0, Suc 0]"
  by (simp add: numeral_2_eq_2 upt_rec)

lemma eye_2: "eye 2 = [[1, 0], [0, 1]]"
  by (simp add: eye_def upt_0_2)

lemma dot_2: "dot [a, b] [c, d] = a * c + b * d"
  by (simp add: dot_def)

lemma vadd_2: "vadd [a, b] [c, d] = [a + c, b + d]"
  by (simp add: vadd_def)

lemma vsub_2: "vsub [a, b] [c, d] = [a - c, b - d]"
  by (simp add: vsub_def)

lemma vscale_2: "vscale s [a, b] = [s * a, s * b]"
  by (simp add: vscale_def)

lemma mneg_2: "mneg [[a, b], [c, d]] = [[- a, - b], [- c, - d]]"
  by (simp add: mneg_def)

lemma mscale_2: "mscale s [[a, b], [c, d]] = [[a * s, b * s], [c * s, d * s]]"
  by (simp add: mscale_def)

lemma msub_scalar_2: "msub_scalar [[a, b], [c, d]] s = [[a - s, b - s], [c - s, d - s]]"
  by (simp add: msub_scalar_def)

lemma matvec_2: "matvec [[a, b], [c, d]] [u, v] = [a * u + b * v, c * u + d * v]"
  by (simp add: matvec_def dot_def)

lemma matmul_2:
  "matmul [[a, b], [c, d]] [[e, f], [g, h]]
     = [[a * e + b * g, a * f + b * h], [c * e + d * g, c * f + d * h]]"
  by (simp add: matmul_def mat_cols_def dot_def upt_0_2)

lemma msub_2: "msub [[a, b], [c, d]] [[e, f], [g, h]] = [[a - e, b - f], [c - g, d - h]]"
  by (simp add: msub_def)

lemma outer_2: "outer [a, b] [c, d] = [[a * c, a * d], [b * c, b * d]]"
  by (simp add: outer_def)

lemma norm2_2_less: "norm2 [a, b] < t \<longleftrightarrow> 0 < t \<and> a * a + b * b < t ^ 2"
  by (simp add: norm2_less_iff)

lemma f_quadratic_2: "f_quadratic [a, b] = a ^ 2 + b ^ 2"
  by (simp add: f_quadratic_def)

lemma grad_f_quadratic_2: "grad_f_quadratic [a, b] = [2 * a, 2 * b]"
  by (simp add: grad_f_quadratic_def)

lemmas eval_2 = eye_2 dot_2 vadd_2 vsub_2 vscale_2 mneg_2 mscale_2 msub_scalar_2 matvec_2
  matmul_2 msub_2 outer_2 f_quadratic_2 grad_f_quadratic_2

subsection \<open>The Armijo loop\<close>

text \<open>
  The loop started at \<open>alpha\<close> returns \<open>alpha * (1/2) ^ k\<close> for the first \<open>k\<close> at
  which the loop test fails, and returns nothing when the test never fails. The
  counting variant returns the same step size.
\<close>

lemma armijo_loop_halvings:
  "(\<And>j. j < k \<Longrightarrow> armijo_test f df x0 d ap (alpha * (1/2) ^ j)) \<Longrightarrow>
   \<not> armijo_test f df x0 d ap (alpha * (1/2) ^ k) \<Longrightarrow>
   armijo_loop f df x0 d ap alpha = Some (alpha * (1/2) ^ k)"
proof (induction k arbitrary: alpha)
  case 0
  then show ?case by (subst armijo_loop.simps) simp
next
  case (Suc k)
  have t0: "armijo_test f df x0 d ap alpha"
    using Suc.prems(1) [of 0] by simp
  have "armijo_loop f df x0 d ap (alpha * 0.5) = Some (alpha * 0.5 * (1/2) ^ k)"
  proof (rule Suc.IH)
    fix j assume "j < k"
    then show "armijo_test f df x0 d ap (alpha * 0.5 * (1/2) ^ j)"
      using Suc.prems(1) [of "Suc j"] by (simp add: mult.assoc)
  next
    show "\<not> armijo_test f df x0 d ap (alpha * 0.5 * (1/2) ^ k)"
      using Suc.prems(2) by (simp add: mult.assoc)
  qed
  then show ?case
    using t0 by (subst armijo_loop.simps) (simp add: mult.assoc)
qed

lemma armijo_loop_evals_halvings:
  "(\<And>j. j < k \<Longrightarrow> armijo_test f df x0 d ap (alpha * (1/2) ^ j)) \<Longrightarrow>
   \<not> armijo_test f df x0 d ap (alpha * (1/2) ^ k) \<Longrightarrow>
   armijo_loop_evals f df x0 d ap alpha c = Some (alpha * (1/2) ^ k, c + 2 * Suc k)"
proof (induction k arbitrary: alpha c)
  case 0
  then show ?case by (subst armijo_loop_evals.simps) simp
next
  case (Suc k)
  have t0: "armijo_test f df x0 d ap alpha"
    using Suc.prems(1) [of 0] by simp
  have "armijo_loop_evals f df x0 d ap (alpha * 0.5) (c + 2)
          = Some (alpha * 0.5 * (1/2) ^ k, c + 2 + 2 * Suc k)"
  proof (rule Suc.IH)
    fix j assume "j < k"
    then show "armijo_test f df x0 d ap (alpha * 0.5 * (1/2) ^ j)"
      using Suc.prems(1) [of "Suc j"] by (simp add: mult.assoc)
  next
    show "\<not> armijo_test f df x0 d ap (alpha * 0.5 * (1/2) ^ k)"
      using Suc.prems(2) by (simp add: mult.assoc)
  qed
  then show ?case
    using t0 by (subst armijo_loop_evals.simps) (simp add: mult.assoc)
qed

lemma armijo_loop_Some:
  assumes "armijo_loop f df x0 d ap alpha = Some r"
  shows "\<exists>k. r = alpha * (1/2) ^ k \<and> \<not> armijo_test f df x0 d ap r \<and>
       (\<forall>j<k. armijo_test f df x0 d ap (alpha * (1/2) ^ j))"
  using assms
proof (induction f df x0 d ap alpha r rule: armijo_loop.raw_induct[rotated, consumes 1])
  case (1 loop f df x0 d ap alpha r)
  show ?case
  proof (cases "armijo_test f df x0 d ap alpha")
    case False
    with 1(2) have "r = alpha" by simp
    with False show ?thesis by (intro exI[of _ 0]) simp
  next
    case True
    with 1(2) have "loop f df x0 d ap (alpha * (5/10)) = Some r" by simp
    from 1(1)[OF this] obtain k where k: "r = alpha * (5/10) * (1/2) ^ k"
      "\<not> armijo_test f df x0 d ap r"
      "\<forall>j<k. armijo_test f df x0 d ap (alpha * (5/10) * (1/2) ^ j)" by blast
    have "\<forall>j<Suc k. armijo_test f df x0 d ap (alpha * (1/2) ^ j)"
    proof (intro allI impI)
      fix j assume "j < Suc k"
      show "armijo_test f df x0 d ap (alpha * (1/2) ^ j)"
      proof (cases j)
        case 0 then show ?thesis using True by simp
      next
        case (Suc i)
        then have "i < k" using \<open>j < Suc k\<close> by simp
        with k(3) have "armijo_test f df x0 d ap (alpha * (5/10) * (1/2) ^ i)" by blast
        then show ?thesis using Suc by (simp add: mult.assoc)
      qed
    qed
    moreover have "r = alpha * (1/2) ^ Suc k" using k(1) by (simp add: mult.assoc)
    ultimately show ?thesis using k(2) by blast
  qed
qed

lemma armijo_loop_evals_Some:
  assumes "armijo_loop_evals f df x0 d ap alpha c = Some r"
  shows "\<exists>k. \<not> armijo_test f df x0 d ap (alpha * (1/2) ^ k)"
  using assms
proof (induction f df x0 d ap alpha c r rule: armijo_loop_evals.raw_induct[rotated, consumes 1])
  case (1 loop f df x0 d ap alpha c r)
  show ?case
  proof (cases "armijo_test f df x0 d ap alpha")
    case False
    then show ?thesis by (intro exI[of _ 0]) simp
  next
    case True
    with 1(2) have "loop f df x0 d ap (alpha * (5/10)) (c + 2) = Some r" by simp
    from 1(1)[OF this] obtain k where "\<not> armijo_test f df x0 d ap (alpha * (5/10) * (1/2) ^ k)"
      by blast
    then have "\<not> armijo_test f df x0 d ap (alpha * (1/2) ^ Suc k)" by (simp add: mult.assoc)
    then show ?thesis by blast
  qed
qed

lemma first_failure:
  assumes "\<not> armijo_test f df x0 d ap (alpha * (1/2) ^ k)"
  shows "\<exists>m\<le>k. \<not> armijo_test f df x0 d ap (alpha * (1/2) ^ m) \<and>
           (\<forall>j<m. armijo_test f df x0 d ap (alpha * (1/2) ^ j))"
proof -
  define m where "m = (LEAST i. \<not> armijo_test f df x0 d ap (alpha * (1/2) ^ i))"
  have a: "\<not> armijo_test f df x0 d ap (alpha * (1/2) ^ m)"
    unfolding m_def using assms by (rule LeastI)
  have b: "m \<le> k" unfolding m_def using assms by (rule Least_le)
  have c: "\<forall>j<m. armijo_test f df x0 d ap (alpha * (1/2) ^ j)"
    unfolding m_def using not_less_Least by blast
  from a b c show ?thesis by blast
qed

lemma armijo_loop_evals_fst:
  "map_option fst (armijo_loop_evals f df x0 d ap alpha c) = armijo_loop f df x0 d ap alpha"
proof (cases "\<exists>k. \<not> armijo_test f df x0 d ap (alpha * (1/2) ^ k)")
  case True
  then obtain k where "\<not> armijo_test f df x0 d ap (alpha * (1/2) ^ k)" by blast
  from first_failure[OF this]
  obtain m where m: "\<not> armijo_test f df x0 d ap (alpha * (1/2) ^ m)"
    "\<And>j. j < m \<Longrightarrow> armijo_test f df x0 d ap (alpha * (1/2) ^ j)"
    by blast
  show ?thesis
    using armijo_loop_halvings[OF m(2) m(1)] armijo_loop_evals_halvings[OF m(2) m(1), of c]
    by simp
next
  case False
  have "armijo_loop f df x0 d ap alpha = None"
  proof (cases "armijo_loop f df x0 d ap alpha")
    case (Some r)
    from armijo_loop_Some[OF this] False show ?thesis by blast
  qed simp
  moreover have "armijo_loop_evals f df x0 d ap alpha c = None"
  proof (cases "armijo_loop_evals f df x0 d ap alpha c")
    case (Some r)
    from armijo_loop_evals_Some[OF this] False show ?thesis by blast
  qed simp
  ultimately show ?thesis by simp
qed

lemma bfgs_step_evals_fst:
  "map_option fst (bfgs_step_evals f df ms x0 d method ap) = bfgs_step f df ms x0 d method ap"
  using armijo_loop_evals_fst [of f df x0 d ap 1 0]
  by (auto simp: bfgs_step_evals_def bfgs_step_def Let_def option.map_comp comp_def
      split_beta map_option_case split: option.splits)


subsection \<open>The update of \<open>H_inv\<close>\<close>






text \<open>
  A secant pair with \<open>dot(p, q) = 0\<close> takes the run out of the real numbers: the
  model stops with \<open>NonFinite\<close> where NumPy goes on with \<open>inf\<close> and \<open>nan\<close>.
\<close>

lemma zero_curvature_NonFinite:
  assumes "dot (vsub (vadd x_old (vscale a d)) x_old)
             (vsub (df (vadd x_old (vscale a d))) (df x_old)) = 0"
  shows "bfgs_secant df n it x_old H d a = NonFinite"
  using assms by (simp add: bfgs_secant_def Let_def)

subsection \<open>The loop of \<open>bfgs\<close>\<close>





lemma bfgs_for_history:
  "bfgs_for f df ms method ap n tol True [a..b] st = Returns st' \<Longrightarrow> \<not> conv st \<Longrightarrow>
   \<exists>ys. hist st' = hist st @ ys \<and>
        (a \<le> b \<longrightarrow> ys \<noteq> [] \<and> hd ys = cur_x st) \<and>
        (if conv st'
         then a \<le> n_iter st' \<and> n_iter st' \<le> b \<and> int (length ys) = n_iter st' - a + 1
         else n_iter st' = n_iter st \<and> int (length ys) = (if a \<le> b then b - a + 1 else 0))"
proof (induction a b arbitrary: st rule: upto.induct)
  case (1 a b)
  show ?case
  proof (cases "a \<le> b")
    case False
    with 1(2,3) show ?thesis by simp
  next
    case True
    then have l: "[a..b] = a # [a + 1..b]" by (simp add: upto_rec1)
    let ?st1 = "st\<lparr>hist := hist st @ [cur_x st]\<rparr>"
    show ?thesis
    proof (cases "norm2 (df (cur_x st)) < tol")
      case small: True
      with 1(2) have "st' = ?st1\<lparr>n_iter := a, conv := True\<rparr>"
        unfolding l by (simp add: Let_def)
      with True show ?thesis by simp
    next
      case big: False
      show ?thesis
      proof (cases "bfgs_update f df ms method ap n a (cur_x st, cur_H st)")
        case (Returns s')
        let ?st2 = "?st1\<lparr>cur_x := fst s', cur_H := snd s'\<rparr>"
        from 1(2) big Returns
        have run: "bfgs_for f df ms method ap n tol True [a + 1..b] ?st2 = Returns st'"
          unfolding l by (simp add: Let_def)
        have nc: "\<not> conv ?st2" using 1(3) by simp
        from 1(1)[OF True run nc]
        obtain ys where ys: "hist st' = hist ?st2 @ ys"
          "a + 1 \<le> b \<longrightarrow> ys \<noteq> [] \<and> hd ys = cur_x ?st2"
          "if conv st'
           then a + 1 \<le> n_iter st' \<and> n_iter st' \<le> b \<and> int (length ys) = n_iter st' - (a + 1) + 1
           else n_iter st' = n_iter ?st2 \<and>
                int (length ys) = (if a + 1 \<le> b then b - (a + 1) + 1 else 0)"
          by blast
        have "hist st' = hist st @ (cur_x st # ys)" using ys(1) by simp
        moreover have "cur_x st # ys \<noteq> [] \<and> hd (cur_x st # ys) = cur_x st" by simp
        moreover have "if conv st'
           then a \<le> n_iter st' \<and> n_iter st' \<le> b \<and>
                int (length (cur_x st # ys)) = n_iter st' - a + 1
           else n_iter st' = n_iter st \<and>
                int (length (cur_x st # ys)) = (if a \<le> b then b - a + 1 else 0)"
          using ys(3) True by (auto split: if_splits)
        ultimately show ?thesis by blast
      qed (use 1(2) big in \<open>simp_all add: l Let_def\<close>)
    qed
  qed
qed

subsection \<open>The run on the test objective\<close>

text \<open>
  From \<open>(1, 1)\<close> with full steps the iterates are \<open>(1, 1)\<close>, \<open>(-1, -1)\<close> and
  \<open>(0, 0)\<close>, and \<open>H_inv\<close> is half the identity after each of the two updates.
\<close>

lemma step0: "bfgs_update f_quadratic grad_f_quadratic ms ''full'' ap 2 0 ([1,1], [[1,0],[0,1]])
   = Returns ([-1,-1], [[1/2,0],[0,1/2]])"
  by (simp add: bfgs_update_def bfgs_secant_def bfgs_step_def H_update_def Let_def eval_2)

lemma step1: "bfgs_update f_quadratic grad_f_quadratic ms ''full'' ap 2 1 ([-1,-1], [[1/2,0],[0,1/2]])
   = Returns ([0,0], [[1/2,0],[0,1/2]])"
  by (simp add: bfgs_update_def bfgs_secant_def bfgs_step_def H_update_def Let_def eval_2)

lemma quad_full_tol:
  assumes "3 \<le> max_iter" "0 < tol" "tol ^ 2 < 8"
  shows "bfgs f_quadratic grad_f_quadratic ms [1, 1] ''full'' ap max_iter tol save
     = Returns \<lparr>x = [0, 0], fx = 0, converged = True, iter = 2,
         history = (if save then Some [[1, 1], [-1, -1], [0, 0]] else None)\<rparr>"
proof -
  have r: "py_range max_iter = 0 # 1 # 2 # [3..max_iter - 1]"
    using assms by (simp add: py_range_def upto_rec1)
  have len: "length [1, 1 :: real] = 2" by simp
  show ?thesis
    unfolding bfgs_def bfgs_run_def bfgs_init_def len r
    using assms(2,3)
    by (simp add: step0 step1 norm2_2_less eval_2
        BFGSOutput_init_def add_history_def)
qed





section \<open>The claims\<close>

text \<open>
  Claim C1: in every iteration the update of the inverse-Hessian approximation is
  \<open>(I - rho * p \<otimes> q) @ H_inv @ (I - rho * p \<otimes> q)\<close> with the outer product
  \<open>p \<otimes> q\<close> and \<open>rho = 1 / dot(p, q)\<close>.

  The code does not compute this. In the first iteration of the run on the test
  objective from \<open>(1, 1)\<close> with full steps, \<open>p = (-2, -2)\<close>, \<open>q = (-4, -4)\<close> and the
  rescaled \<open>H_inv\<close> is half the identity; the code's update leaves half the
  identity, the formula with the outer product gives
  \<open>[[1/4, -1/4], [-1/4, 1/4]]\<close>.
\<close>

theorem update_not_outer_product:
  "bfgs_update f_quadratic grad_f_quadratic minimizer_stub ''full'' (1/2) 2 0 ([1, 1], eye 2)
     = Returns ([-1, -1], [[1/2, 0], [0, 1/2]]) \<and>
   H_update 2 (1 / dot [-2, -2] [-4, -4]) [-2, -2] [-4, -4]
      (mscale (dot [-2, -2] [-4, -4] / dot [-4, -4] [-4, -4]) (eye 2))
     = [[1/2, 0], [0, 1/2]] \<and>
   H_update_spec 2 (1 / dot [-2, -2] [-4, -4]) [-2, -2] [-4, -4]
      (mscale (dot [-2, -2] [-4, -4] / dot [-4, -4] [-4, -4]) (eye 2))
     = [[1/4, -1/4], [-1/4, 1/4]]"
  by (simp add: step0 H_update_def H_update_spec_def eval_2)



text \<open>
  Claim C3: for \<open>f(x) = x0^2 + x1^2\<close> from \<open>(1, 1)\<close> with method \<open>full\<close> and
  tolerance \<open>1e-5\<close> the run converges, the final iterate is within the tolerance of
  \<open>(0, 0)\<close>, and the iteration count is below 10. The run stops in iteration 2 at
  \<open>(0, 0)\<close> exactly, for every cap of at least 3 iterations (the default cap is 20).
\<close>

theorem quadratic_full_converges:
  assumes "3 \<le> max_iter"
  shows "bfgs f_quadratic grad_f_quadratic ms [1, 1] ''full'' ap max_iter (1 / 100000) save
           = Returns \<lparr>x = [0, 0], fx = 0, converged = True, iter = 2,
               history = (if save then Some [[1, 1], [-1, -1], [0, 0]] else None)\<rparr> \<and>
         norm2 (vsub [0, 0] [0, 0]) < 1 / 100000 \<and> (2 :: int) < 10"
proof -
  have "norm2 (vsub [0, 0] [0, 0]) < 1 / 100000"
    using norm2_2_less[of 0 0 "1 / 100000"] by (simp add: vsub_2)
  moreover have "bfgs f_quadratic grad_f_quadratic ms [1, 1] ''full'' ap max_iter (1 / 100000) save
           = Returns \<lparr>x = [0, 0], fx = 0, converged = True, iter = 2,
               history = (if save then Some [[1, 1], [-1, -1], [0, 0]] else None)\<rparr>"
    using assms by (intro quad_full_tol) (simp_all add: power2_eq_square)
  ultimately show ?thesis by simp
qed

theorem quadratic_full_converges_witness:
  "(3 :: int) \<le> 20 \<and>
   bfgs f_quadratic grad_f_quadratic minimizer_stub [1, 1] ''full'' (1/2) 20 (1 / 100000) False
     = Returns \<lparr>x = [0, 0], fx = 0, converged = True, iter = 2, history = None\<rparr>"
proof -
  have h: "(3 :: int) \<le> 20" by simp
  from quadratic_full_converges[OF h, of minimizer_stub "1/2" False] h
  show ?thesis by simp
qed

text \<open>
  Claim C4, as amended: the result object is built once, at the end of the run, by
  the constructor, which gives it no history; when \<open>save_history\<close> is set the
  history is attached afterwards by one call of \<open>add_history\<close>, which changes no
  other attribute; when \<open>save_history\<close> is not set the object is returned as
  constructed.
\<close>

theorem result_mutated_only_by_add_history:
  assumes "bfgs f df ms x0 method ap max_iter tol save = Returns out"
  shows "\<exists>c. bfgs_constructed f df ms x0 method ap max_iter tol save = Returns c \<and>
           history c = None \<and>
           x out = x c \<and> fx out = fx c \<and> converged out = converged c \<and> iter out = iter c \<and>
           (if save then \<exists>h. out = add_history c h else out = c)"
proof (cases "bfgs_run f df ms x0 method ap max_iter tol save")
  case (Returns st)
  with assms show ?thesis
    by (auto simp: bfgs_def bfgs_constructed_def BFGSOutput_init_def add_history_def Let_def)
qed (use assms in \<open>simp_all add: bfgs_def\<close>)

theorem result_mutated_only_by_add_history_witness:
  "bfgs f_quadratic grad_f_quadratic minimizer_stub [1, 1] ''full'' (1/2) 20 (1 / 100000) True
     = Returns \<lparr>x = [0, 0], fx = 0, converged = True, iter = 2,
         history = Some [[1, 1], [-1, -1], [0, 0]]\<rparr> \<and>
   (\<exists>c. bfgs_constructed f_quadratic grad_f_quadratic minimizer_stub [1, 1] ''full'' (1/2) 20
           (1 / 100000) True = Returns c \<and>
        history c = None \<and> x c = [0, 0] \<and> fx c = 0 \<and> converged c \<and> iter c = 2)"
proof -
  have h: "bfgs f_quadratic grad_f_quadratic minimizer_stub [1, 1] ''full'' (1/2) 20 (1 / 100000)
      True
     = Returns \<lparr>x = [0, 0], fx = 0, converged = True, iter = 2,
         history = Some [[1, 1], [-1, -1], [0, 0]]\<rparr>"
    using quad_full_tol[of 20 "1 / 100000" minimizer_stub "1/2" True]
    by (simp add: power2_eq_square)
  from result_mutated_only_by_add_history[OF h] h show ?thesis by auto
qed

text \<open>
  The claim as first stated, that the history is attached at construction and the
  object never changes afterwards, fails: with one iteration and \<open>save_history\<close>
  set, the constructed object has no history and the returned one has.
\<close>

theorem history_attached_after_construction:
  "bfgs_constructed f_quadratic grad_f_quadratic minimizer_stub [1, 1] ''full'' (1/2) 1 (1/100000) True
     = Returns \<lparr>x = [-1, -1], fx = 2, converged = False, iter = 1, history = None\<rparr> \<and>
   bfgs f_quadratic grad_f_quadratic minimizer_stub [1, 1] ''full'' (1/2) 1 (1/100000) True
     = Returns \<lparr>x = [-1, -1], fx = 2, converged = False, iter = 1, history = Some [[1, 1]]\<rparr>"
proof -
  have len: "length [1, 1 :: real] = 2" by simp
  have t: "\<not> norm2 [2, 2] < 1 / 100000"
    using norm2_2_less[of 2 2 "1 / 100000"] by (simp add: power2_eq_square)
  have "bfgs_run f_quadratic grad_f_quadratic minimizer_stub [1, 1] ''full'' (1/2) 1 (1/100000) True
    = Returns \<lparr>cur_x = [-1, -1], cur_H = [[1/2, 0], [0, 1/2]], conv = False, n_iter = 1,
        hist = [[1, 1]]\<rparr>"
    unfolding bfgs_run_def bfgs_init_def len
    using t by (simp add: py_range_def step0 eval_2)
  then show ?thesis
    by (simp add: bfgs_constructed_def bfgs_def BFGSOutput_init_def add_history_def eval_2)
qed

text \<open>
  Claim C5, as amended: for a run with \<open>save_history\<close> set that returns, the history
  has \<open>n_iter + 1\<close> entries when the run converged, and \<open>max_iter\<close> entries when the
  cap was reached without convergence and \<open>max_iter \<ge> 0\<close>; when \<open>max_iter \<ge> 1\<close>
  its entry 0 is the initial iterate; when \<open>max_iter \<le> 0\<close> it is empty and has no
  entry 0.
\<close>

theorem history_length_and_head:
  assumes "bfgs f df ms x0 method ap max_iter tol True = Returns out"
  shows "\<exists>h. history out = Some h \<and>
           (converged out \<longrightarrow> int (length h) = iter out + 1) \<and>
           (\<not> converged out \<and> 0 \<le> max_iter \<longrightarrow> int (length h) = max_iter) \<and>
           (0 < max_iter \<longrightarrow> history_at out 0 = Some x0) \<and>
           (max_iter \<le> 0 \<longrightarrow> h = [] \<and> history_at out 0 = None)"
proof -
  let ?st = "bfgs_init x0 max_iter"
  from assms obtain st' where
    run: "bfgs_for f df ms method ap (length x0) tol True [0..max_iter - 1] ?st = Returns st'"
    and out: "out = add_history (BFGSOutput_init (cur_x st') (f (cur_x st')) (conv st') (n_iter st'))
                 (hist st')"
    by (cases "bfgs_run f df ms x0 method ap max_iter tol True")
      (simp_all add: bfgs_def bfgs_run_def py_range_def Let_def)
  have nc: "\<not> conv ?st" by (simp add: bfgs_init_def)
  have init: "hist ?st = []" "cur_x ?st = x0" "n_iter ?st = max_iter"
    by (simp_all add: bfgs_init_def)
  from bfgs_for_history[OF run nc]
  obtain ys where ys0: "hist st' = hist ?st @ ys"
    "0 \<le> max_iter - 1 \<longrightarrow> ys \<noteq> [] \<and> hd ys = cur_x ?st"
    "if conv st'
     then 0 \<le> n_iter st' \<and> n_iter st' \<le> max_iter - 1 \<and> int (length ys) = n_iter st' - 0 + 1
     else n_iter st' = n_iter ?st \<and>
          int (length ys) = (if 0 \<le> max_iter - 1 then max_iter - 1 - 0 + 1 else 0)"
    by blast
  have ys: "hist st' = ys"
    "0 \<le> max_iter - 1 \<longrightarrow> ys \<noteq> [] \<and> hd ys = x0"
    "if conv st'
     then 0 \<le> n_iter st' \<and> n_iter st' \<le> max_iter - 1 \<and> int (length ys) = n_iter st' - 0 + 1
     else n_iter st' = max_iter \<and>
          int (length ys) = (if 0 \<le> max_iter - 1 then max_iter - 1 - 0 + 1 else 0)"
    using ys0 unfolding init by simp_all
  have h: "history out = Some ys"
    using out ys(1) by (simp add: add_history_def BFGSOutput_init_def)
  have c: "converged out = conv st'" "iter out = n_iter st'"
    using out by (simp_all add: add_history_def BFGSOutput_init_def)
  have 1: "converged out \<longrightarrow> int (length ys) = iter out + 1"
    using ys(3) c by (auto split: if_splits)
  have 2: "\<not> converged out \<and> 0 \<le> max_iter \<longrightarrow> int (length ys) = max_iter"
    using ys(3) c by (auto split: if_splits)
  have 3: "0 < max_iter \<longrightarrow> history_at out 0 = Some x0"
    using ys(2) h by (cases ys) (auto simp: history_at_def)
  have 4: "max_iter \<le> 0 \<longrightarrow> ys = [] \<and> history_at out 0 = None"
    using ys(3) h c by (auto simp: history_at_def split: if_splits)
  from h 1 2 3 4 show ?thesis by blast
qed

theorem history_length_and_head_witness:
  "bfgs f_quadratic grad_f_quadratic minimizer_stub [1, 1] ''full'' (1/2) 20 (1 / 100000) True
     = Returns \<lparr>x = [0, 0], fx = 0, converged = True, iter = 2,
         history = Some [[1, 1], [-1, -1], [0, 0]]\<rparr> \<and>
   int (length [[1, 1], [-1, -1], [0, 0 :: real]]) = 2 + 1 \<and>
   history_at \<lparr>x = [0, 0], fx = 0, converged = True, iter = 2,
         history = Some [[1, 1], [-1, -1], [0, 0]]\<rparr> 0 = Some [1, 1]"
proof -
  have h: "bfgs f_quadratic grad_f_quadratic minimizer_stub [1, 1] ''full'' (1/2) 20 (1 / 100000)
      True
     = Returns \<lparr>x = [0, 0], fx = 0, converged = True, iter = 2,
         history = Some [[1, 1], [-1, -1], [0, 0]]\<rparr>"
    using quad_full_tol[of 20 "1 / 100000" minimizer_stub "1/2" True]
    by (simp add: power2_eq_square)
  from history_length_and_head[OF h] h show ?thesis by simp
qed

text \<open>
  The claim as first stated, that entry 0 of the history is the initial iterate in
  every run, fails for \<open>max_iter = 0\<close>: the loop body never runs and the history
  is the empty list.
\<close>

theorem history_empty_at_max_iter_zero:
  "bfgs f_quadratic grad_f_quadratic minimizer_stub [1, 1] ''full'' (1/2) 0 (1/100000) True
     = Returns \<lparr>x = [1, 1], fx = 2, converged = False, iter = 0, history = Some []\<rparr> \<and>
   history_at \<lparr>x = [1, 1], fx = 2, converged = False, iter = 0, history = Some []\<rparr> 0
     \<noteq> Some [1, 1]"
  by (simp add: bfgs_def bfgs_run_def py_range_def bfgs_init_def BFGSOutput_init_def
      add_history_def history_at_def eval_2)





text \<open>
  Claim C9: with \<open>max_iter = 0\<close> the loop body never runs, and the run returns
  \<open>converged = False\<close>, \<open>n_iter = 0\<close> and the initial iterate, for every
  objective, gradient, starting point, method and tolerance.
\<close>

theorem bfgs_max_iter_zero:
  "bfgs_run f df ms x0 method ap 0 tol save = Returns (bfgs_init x0 0) \<and>
   bfgs f df ms x0 method ap 0 tol save =
     Returns \<lparr>x = x0, fx = f x0, converged = False, iter = 0,
              history = (if save then Some [] else None)\<rparr>"
  by (simp add: bfgs_def bfgs_run_def py_range_def bfgs_init_def BFGSOutput_init_def
      add_history_def)

text \<open>
  Claim C10: for method \<open>full\<close>, \<open>bfgs_step\<close> returns 1 whatever the objective,
  the gradient, the iterate and the direction are, and calls \<open>f\<close> no times.
\<close>

theorem bfgs_step_full:
  "bfgs_step f df ms x0 d ''full'' ap = Some (Alpha 1) \<and>
   bfgs_step_evals f df ms x0 d ''full'' ap = Some (Alpha 1, 0)"
  by (simp add: bfgs_step_def bfgs_step_evals_def)

end
